theory Spec2Isabelle
  imports Main "HOL-Library.Word"
begin

unbundle bit_operations_syntax

section \<open>Strings and lexical paths\<close>

text \<open>
  The functions of Go's \<open>strings\<close> and \<open>path/filepath\<close> packages that
  \<open>build/tools/tools.go\<close> calls, for a Unix host (separator \<open>/\<close>, no volume names).
  A Go string is a byte sequence, here a \<open>string\<close>.
\<close>

definition HasSuffix :: "string \<Rightarrow> string \<Rightarrow> bool" where
  "HasSuffix s suffix =
     (length suffix \<le> length s \<and> drop (length s - length suffix) s = suffix)"

text \<open>\<open>strings.Count(s, "/")\<close>: the separator is always one byte in this program.\<close>

definition Count :: "string \<Rightarrow> char \<Rightarrow> nat" where
  "Count s c = length (filter (\<lambda>x. x = c) s)"

definition Repeat :: "string \<Rightarrow> nat \<Rightarrow> string" where
  "Repeat s n = concat (replicate n s)"

fun splitOn :: "char \<Rightarrow> string \<Rightarrow> string list" where
  "splitOn c [] = [[]]"
| "splitOn c (x # xs) =
     (if x = c then [] # splitOn c xs
      else (case splitOn c xs of [] \<Rightarrow> [[x]] | y # ys \<Rightarrow> (x # y) # ys))"

text \<open>\<open>strings.SplitN(s, ":", 2)\<close>: at most two parts, cut at the first colon.\<close>

definition SplitN2 :: "string \<Rightarrow> string list" where
  "SplitN2 s =
     (if CHR '':'' \<in> set s
      then [takeWhile (\<lambda>c. c \<noteq> CHR '':'') s, tl (dropWhile (\<lambda>c. c \<noteq> CHR '':'') s)]
      else [s])"

definition lowerChar :: "char \<Rightarrow> char" where
  "lowerChar c =
     (let n = (of_char c :: nat) in if 65 \<le> n \<and> n \<le> 90 then char_of (n + 32) else c)"

definition ToLower :: "string \<Rightarrow> string" where
  "ToLower s = map lowerChar s"

fun joinSep :: "string list \<Rightarrow> string" where
  "joinSep [] = []"
| "joinSep [x] = x"
| "joinSep (x # y # ys) = x @ ''/'' @ joinSep (y # ys)"

definition IsAbs :: "string \<Rightarrow> bool" where
  "IsAbs p = (case p of [] \<Rightarrow> False | c # _ \<Rightarrow> c = CHR ''/'')"

text \<open>
  \<open>filepath.Clean\<close>: empty and \<open>.\<close> elements go, an inner \<open>..\<close> removes the
  element before it, a \<open>..\<close> at the start of a rooted path goes, and the empty result
  is \<open>.\<close>.
\<close>

definition cleanStep :: "bool \<Rightarrow> string list \<Rightarrow> string \<Rightarrow> string list" where
  "cleanStep rooted stack c =
     (if c = [] \<or> c = ''.'' then stack
      else if c = ''..'' then
        (if stack \<noteq> [] \<and> last stack \<noteq> ''..'' then butlast stack
         else if rooted then stack
         else stack @ [''..''])
      else stack @ [c])"

definition Clean :: "string \<Rightarrow> string" where
  "Clean p =
     (let rooted = IsAbs p;
          out = (if rooted then ''/'' else []) @
                joinSep (foldl (cleanStep rooted) [] (splitOn (CHR ''/'') p))
      in if out = [] then ''.'' else out)"

text \<open>\<open>filepath.Join\<close>: leading empty elements are dropped, the rest joined and cleaned.\<close>

definition Join :: "string list \<Rightarrow> string" where
  "Join elem =
     (case dropWhile (\<lambda>e. e = []) elem of [] \<Rightarrow> [] | es \<Rightarrow> Clean (joinSep es))"

definition Dir :: "string \<Rightarrow> string" where
  "Dir p = Clean (rev (dropWhile (\<lambda>c. c \<noteq> CHR ''/'') (rev p)))"

definition Base :: "string \<Rightarrow> string" where
  "Base p =
     (if p = [] then ''.''
      else (let q = dropWhile (\<lambda>c. c = CHR ''/'') (rev p);
                b = rev (takeWhile (\<lambda>c. c \<noteq> CHR ''/'') q)
            in if b = [] then ''/'' else b))"

section \<open>The catalog\<close>

type_synonym Name = string

record Platform =
  OS :: string
  Arch :: string

definition PlatformString :: "Platform \<Rightarrow> string" where
  "PlatformString p = OS p @ ''.'' @ Arch p"

abbreviation dockerOS :: string where
  "dockerOS \<equiv> ''docker''"

abbreviation linuxAMD64 :: Platform where
  "linuxAMD64 \<equiv> \<lparr>OS = ''linux'', Arch = ''amd64''\<rparr>"

abbreviation darwinAMD64 :: Platform where
  "darwinAMD64 \<equiv> \<lparr>OS = ''darwin'', Arch = ''amd64''\<rparr>"

abbreviation darwinARM64 :: Platform where
  "darwinARM64 \<equiv> \<lparr>OS = ''darwin'', Arch = ''arm64''\<rparr>"

abbreviation dockerAMD64 :: Platform where
  "dockerAMD64 \<equiv> \<lparr>OS = dockerOS, Arch = ''amd64''\<rparr>"

abbreviation dockerARM64 :: Platform where
  "dockerARM64 \<equiv> \<lparr>OS = dockerOS, Arch = ''arm64''\<rparr>"

text \<open>
  A Go \<open>map[string]string\<close> is an association list with distinct keys; the order of the
  list is the order in which \<open>range\<close> visits the map.
\<close>

type_synonym strmap = "(string \<times> string) list"

record Source =
  URL :: string
  Hash :: string
  SrcBinaries :: strmap

record Tool =
  Version :: string
  ForDocker :: bool
  ForLocal :: bool
  Sources :: "(Platform \<times> Source) list"
  Binaries :: strmap

abbreviation Go :: Name where "Go \<equiv> ''go''"
abbreviation GolangCI :: Name where "GolangCI \<equiv> ''golangci''"
abbreviation Ignite :: Name where "Ignite \<equiv> ''ignite''"
abbreviation Cosmovisor :: Name where "Cosmovisor \<equiv> ''cosmovisor''"
abbreviation LibWASMMuslC :: Name where "LibWASMMuslC \<equiv> ''libwasmvm_muslc''"
abbreviation Gaia :: Name where "Gaia \<equiv> ''gaia''"
abbreviation Relayer :: Name where "Relayer \<equiv> ''relayer''"
abbreviation CoredV011 :: Name where "CoredV011 \<equiv> ''cored-v0.1.1''"

definition tools :: "(Name \<times> Tool) list" where
  "tools =
   [(Go, \<lparr>Version = ''1.20.1'', ForDocker = False, ForLocal = True,
      Sources =
       [(linuxAMD64, \<lparr>URL = ''https://go.dev/dl/go1.20.1.linux-amd64.tar.gz'',
          Hash = ''sha256:000a5b1fca4f75895f78befeb2eecf10bfff3c428597f3f1e69133b63b911b02'',
          SrcBinaries = []\<rparr>),
        (darwinAMD64, \<lparr>URL = ''https://go.dev/dl/go1.20.1.darwin-amd64.tar.gz'',
          Hash = ''sha256:a300a45e801ab459f3008aae5bb9efbe9a6de9bcd12388f5ca9bbd14f70236de'',
          SrcBinaries = []\<rparr>),
        (darwinARM64, \<lparr>URL = ''https://go.dev/dl/go1.20.1.darwin-arm64.tar.gz'',
          Hash = ''sha256:f1a8e06c7f1ba1c008313577f3f58132eb166a41ceb95ce6e9af30bc5a3efca4'',
          SrcBinaries = []\<rparr>)],
      Binaries = [(''bin/go'', ''go/bin/go''), (''bin/gofmt'', ''go/bin/gofmt'')]\<rparr>),
    (GolangCI, \<lparr>Version = ''1.51.2'', ForDocker = False, ForLocal = True,
      Sources =
       [(linuxAMD64, \<lparr>URL = ''https://github.com/golangci/golangci-lint/releases/download/v1.51.2/golangci-lint-1.51.2-linux-amd64.tar.gz'',
          Hash = ''sha256:4de479eb9d9bc29da51aec1834e7c255b333723d38dbd56781c68e5dddc6a90b'',
          SrcBinaries = [(''bin/golangci-lint'', ''golangci-lint-1.51.2-linux-amd64/golangci-lint'')]\<rparr>),
        (darwinAMD64, \<lparr>URL = ''https://github.com/golangci/golangci-lint/releases/download/v1.51.2/golangci-lint-1.51.2-darwin-amd64.tar.gz'',
          Hash = ''sha256:0549cbaa2df451cf3a2011a9d73a9cb127784d26749d9cd14c9f4818af104d44'',
          SrcBinaries = [(''bin/golangci-lint'', ''golangci-lint-1.51.2-darwin-amd64/golangci-lint'')]\<rparr>),
        (darwinARM64, \<lparr>URL = ''https://github.com/golangci/golangci-lint/releases/download/v1.51.2/golangci-lint-1.51.2-darwin-arm64.tar.gz'',
          Hash = ''sha256:36e69882205a0e42a63ad57ec3015639c11051e03f0beb9cf7949c6451408960'',
          SrcBinaries = [(''bin/golangci-lint'', ''golangci-lint-1.51.2-darwin-arm64/golangci-lint'')]\<rparr>)],
      Binaries = []\<rparr>),
    (Ignite, \<lparr>Version = ''0.23.0'', ForDocker = False, ForLocal = True,
      Sources =
       [(linuxAMD64, \<lparr>URL = ''https://github.com/ignite/cli/releases/download/v0.23.0/ignite_0.23.0_linux_amd64.tar.gz'',
          Hash = ''sha256:915a96eb366fbf9c353af32d0ddb01796a30b86343ac77d613cc8a8af3dd395a'',
          SrcBinaries = []\<rparr>),
        (darwinAMD64, \<lparr>URL = ''https://github.com/ignite/cli/releases/download/v0.23.0/ignite_0.23.0_darwin_amd64.tar.gz'',
          Hash = ''sha256:b9ca67a70f4d1b43609c4289a7e83dc2174754d35f30fb43f1518c0434361c4e'',
          SrcBinaries = []\<rparr>),
        (darwinARM64, \<lparr>URL = ''https://github.com/ignite/cli/releases/download/v0.23.0/ignite_0.23.0_darwin_arm64.tar.gz'',
          Hash = ''sha256:daefd4ac83e3bb384cf97a2ff8cc6e81427f74e2c81c567fd0507fce647146ec'',
          SrcBinaries = []\<rparr>)],
      Binaries = [(''bin/ignite'', ''ignite'')]\<rparr>),
    (Cosmovisor, \<lparr>Version = ''1.3.0'', ForDocker = True, ForLocal = False,
      Sources =
       [(dockerAMD64, \<lparr>URL = ''https://github.com/cosmos/cosmos-sdk/releases/download/cosmovisor%2Fv1.3.0/cosmovisor-v1.3.0-linux-amd64.tar.gz'',
          Hash = ''sha256:34d7c9fbaa03f49b8278e13768d0fd82e28101dfa9625e25379c36a86d558826'',
          SrcBinaries = []\<rparr>),
        (dockerARM64, \<lparr>URL = ''https://github.com/cosmos/cosmos-sdk/releases/download/cosmovisor%2Fv1.3.0/cosmovisor-v1.3.0-linux-arm64.tar.gz'',
          Hash = ''sha256:8d7de2a18eb2cc4a749efbdbe060ecb34c3e5ca12354b7118a6966fa46d3a33d'',
          SrcBinaries = []\<rparr>)],
      Binaries = [(''bin/cosmovisor'', ''cosmovisor'')]\<rparr>),
    (LibWASMMuslC, \<lparr>Version = ''v1.1.1'', ForDocker = True, ForLocal = False,
      Sources =
       [(dockerAMD64, \<lparr>URL = ''https://github.com/CosmWasm/wasmvm/releases/download/v1.1.1/libwasmvm_muslc.x86_64.a'',
          Hash = ''sha256:6e4de7ba9bad4ae9679c7f9ecf7e283dd0160e71567c6a7be6ae47c81ebe7f32'',
          SrcBinaries = [(''lib/libwasmvm_muslc.a'', ''libwasmvm_muslc.x86_64.a'')]\<rparr>),
        (dockerARM64, \<lparr>URL = ''https://github.com/CosmWasm/wasmvm/releases/download/v1.1.1/libwasmvm_muslc.aarch64.a'',
          Hash = ''sha256:9ecb037336bd56076573dc18c26631a9d2099a7f2b40dc04b6cae31ffb4c8f9a'',
          SrcBinaries = [(''lib/libwasmvm_muslc.a'', ''libwasmvm_muslc.aarch64.a'')]\<rparr>)],
      Binaries = []\<rparr>),
    (Gaia, \<lparr>Version = ''v7.1.0'', ForDocker = True, ForLocal = False,
      Sources =
       [(dockerAMD64, \<lparr>URL = ''https://github.com/cosmos/gaia/releases/download/v7.1.0/gaiad-v7.1.0-linux-amd64'',
          Hash = ''sha256:7a24fd361b0259878a5aeb1f890ca0df20be1a875e7fc94aaef36eec4edf99c4'',
          SrcBinaries = [(''bin/gaiad'', ''gaiad-v7.1.0-linux-amd64'')]\<rparr>),
        (dockerARM64, \<lparr>URL = ''https://github.com/cosmos/gaia/releases/download/v7.1.0/gaiad-v7.1.0-linux-arm64'',
          Hash = ''sha256:4ac73edab3a967af4af2549d48ff8c7600f73e103766dc97f2eeff35fd6b8c50'',
          SrcBinaries = [(''bin/gaiad'', ''gaiad-v7.1.0-linux-arm64'')]\<rparr>)],
      Binaries = []\<rparr>),
    (Relayer, \<lparr>Version = ''v2.2.0'', ForDocker = True, ForLocal = False,
      Sources =
       [(dockerAMD64, \<lparr>URL = ''https://github.com/cosmos/relayer/releases/download/v2.2.0/Cosmos.Relayer_2.2.0_linux_amd64.tar.gz'',
          Hash = ''sha256:d0d987ee2f1eedfec3523edad5abcc282521952e438cfe4eb19999a8fff465bd'',
          SrcBinaries = [(''bin/relayer'', ''Cosmos Relayer_2.2.0_linux_amd64/rly'')]\<rparr>),
        (dockerARM64, \<lparr>URL = ''https://github.com/cosmos/relayer/releases/download/v2.2.0/Cosmos.Relayer_2.2.0_linux_arm64.tar.gz'',
          Hash = ''sha256:eacdffe4499021eb444857255dd3d852d574014f98fe80c26ae54ad056056fc4'',
          SrcBinaries = [(''bin/relayer'', ''Cosmos Relayer_2.2.0_linux_arm64/rly'')]\<rparr>)],
      Binaries = []\<rparr>),
    (CoredV011, \<lparr>Version = ''v0.1.1'', ForDocker = True, ForLocal = False,
      Sources =
       [(dockerAMD64, \<lparr>URL = ''https://github.com/CoreumFoundation/coreum/releases/download/v0.1.1/cored-linux-amd64'',
          Hash = ''sha256:21db2ea1b31d9e8202e0d11f2bee0de78d2e677c07fd75a7db1f3958bf49146c'',
          SrcBinaries = [(''bin/cored-v0.1.1'', ''cored-linux-amd64'')]\<rparr>),
        (dockerARM64, \<lparr>URL = ''https://github.com/CoreumFoundation/coreum/releases/download/v0.1.1/cored-linux-arm64'',
          Hash = ''sha256:7d383d1a1bc9185677b25c05ebbe01cf20dd6c779ca4301065359ea6e3bcefa3'',
          SrcBinaries = [(''bin/cored-v0.1.1'', ''cored-linux-arm64'')]\<rparr>)],
      Binaries = []\<rparr>)]"

text \<open>
  \<open>lo.Assign(maps...)\<close> of \<open>github.com/samber/lo\<close>: a fresh map that receives every
  entry of every argument, from left to right, a later entry replacing an earlier one with
  the same key. \<open>mapSet m k v\<close> is the assignment \<open>m[k] = v\<close>.
\<close>

fun mapSet :: "('k \<times> 'v) list \<Rightarrow> 'k \<Rightarrow> 'v \<Rightarrow> ('k \<times> 'v) list" where
  "mapSet [] k v = [(k, v)]"
| "mapSet ((k', v') # m) k v = (if k' = k then (k, v) # m else (k', v') # mapSet m k v)"

definition Assign :: "('k \<times> 'v) list list \<Rightarrow> ('k \<times> 'v) list" where
  "Assign maps = foldl (\<lambda>out m. foldl (\<lambda>acc (k, v). mapSet acc k v) out m) [] maps"

section \<open>Errors\<close>

datatype errno =
  ENOENT | EEXIST | ENOTDIR | EISDIR | ELOOP | ENOTEMPTY | EINVAL | EPERM | EBUSY

text \<open>
  The errors the program makes itself (\<open>errors.Errorf\<close>), an operating-system error
  (\<open>*fs.PathError\<close> with its \<open>errno\<close>) and the errors of the HTTP client and of the
  gzip and tar readers.
\<close>

datatype error =
    ToolNotDefined Name
  | NotConfigured Name string
  | ChecksumMismatch Name string string string
  | IncorrectChecksumFormat string
  | UnsupportedHash string
  | UnsupportedFileType char
  | BinaryMissing string Name
  | PathError errno
  | InvalidURL string
  | TransportError
  | StreamError

text \<open>A Go function of result type \<open>error\<close> returns \<open>nil\<close> or an error, or panics.\<close>

datatype outcome = Return "error option" | Panic error

definition IsNotExist :: "errno \<Rightarrow> bool" where
  "IsNotExist er = (er = ENOENT)"

definition IsExist :: "errno \<Rightarrow> bool" where
  "IsExist er = (er = EEXIST \<or> er = ENOTEMPTY)"

section \<open>The file system\<close>

text \<open>
  The state the program reads and writes: a tree of directories, files and symbolic links,
  the inodes of the files (several names may share one: hard links), and the log of the
  HTTP requests issued. A location is the list of names from the root down; the root is
  always a directory. Permission arguments are stored as passed (a process umask of 0) and
  no operation fails for lack of permission.
\<close>

type_synonym path = "string list"
type_synonym FileMode = "32 word"

datatype node = DirNode FileMode | FileNode nat | LinkNode string

record inode =
  imode :: FileMode
  content :: string

record world =
  tree :: "(path \<times> node) list"
  inodes :: "inode list"
  requests :: "string list"

text \<open>
  What the program takes from its process: the directory \<open>os.UserCacheDir()\<close> returns,
  the working directory (absolute, free of symbolic links, as \<open>os.Getwd()\<close> gives it),
  \<open>runtime.GOOS\<close> and \<open>runtime.GOARCH\<close>, and the lower-case hexadecimal SHA-256 digest
  of a byte string (\<open>crypto/sha256\<close> printed with \<open>%02x\<close>).
\<close>

record env =
  userCacheDir :: string
  cwd :: string
  GOOS :: string
  GOARCH :: string
  sha256hex :: "string \<Rightarrow> string"

abbreviation ModeDir :: FileMode where
  "ModeDir \<equiv> 2147483648"

definition nodeAt :: "world \<Rightarrow> path \<Rightarrow> node option" where
  "nodeAt w p = (if p = [] then Some (DirNode 493) else map_of (tree w) p)"

definition inodeAt :: "world \<Rightarrow> nat \<Rightarrow> inode option" where
  "inodeAt w i = (if i < length (inodes w) then Some (inodes w ! i) else None)"

definition components :: "string \<Rightarrow> string list" where
  "components s = filter (\<lambda>c. c \<noteq> []) (splitOn (CHR ''/'') s)"

definition render :: "path \<Rightarrow> string" where
  "render p = (if p = [] then ''/'' else concat (map (\<lambda>c. ''/'' @ c) p))"

definition isPrefix :: "path \<Rightarrow> path \<Rightarrow> bool" where
  "isPrefix p q = (take (length p) q = p)"

text \<open>
  Path resolution as the kernel does it: name by name from a directory, \<open>..\<close> going to
  the parent, a symbolic link replaced by its target (at most \<open>n\<close> more times), the last
  name followed only when \<open>follow\<close> is set. The result is the location the path names;
  only its last name may be missing from the tree.
\<close>

fun walk :: "world \<Rightarrow> bool \<Rightarrow> nat \<Rightarrow> path \<Rightarrow> string list \<Rightarrow> errno + path" where
  "walk w follow n cur [] = Inr cur"
| "walk w follow n cur (c # cs) =
     (if c = ''.'' then walk w follow n cur cs
      else if c = ''..'' then walk w follow n (butlast cur) cs
      else (case nodeAt w (cur @ [c]) of
              None \<Rightarrow> if cs = [] then Inr (cur @ [c]) else Inl ENOENT
            | Some (DirNode m) \<Rightarrow> walk w follow n (cur @ [c]) cs
            | Some (FileNode i) \<Rightarrow> if cs = [] then Inr (cur @ [c]) else Inl ENOTDIR
            | Some (LinkNode t) \<Rightarrow>
                if cs = [] \<and> \<not> follow then Inr (cur @ [c])
                else if t = [] then Inl ENOENT
                else (case n of
                        0 \<Rightarrow> Inl ELOOP
                      | Suc m \<Rightarrow>
                          walk w follow m (if IsAbs t then [] else cur) (components t @ cs))))"

abbreviation maxLinks :: nat where
  "maxLinks \<equiv> 40"

definition isDirAt :: "world \<Rightarrow> path \<Rightarrow> bool" where
  "isDirAt w p = (case nodeAt w p of Some (DirNode m) \<Rightarrow> True | _ \<Rightarrow> False)"

definition resolve :: "env \<Rightarrow> world \<Rightarrow> bool \<Rightarrow> string \<Rightarrow> errno + path" where
  "resolve e w follow p =
     (if p = [] then Inl ENOENT
      else if IsAbs p then walk w follow maxLinks [] (components p)
      else if isDirAt w (components (cwd e))
           then walk w follow maxLinks (components (cwd e)) (components p)
      else Inl ENOENT)"

text \<open>\<open>filepath.Abs\<close>; \<open>os.Getwd\<close> is taken to succeed, so it returns no error.\<close>

definition Abs :: "env \<Rightarrow> string \<Rightarrow> string" where
  "Abs e p = (if IsAbs p then Clean p else Join [cwd e, p])"

text \<open>
  \<open>filepath.EvalSymlinks\<close>, for the absolute paths the program compares its result
  with; for a relative path Go returns a relative name of the same file, and the one call
  with such a path discards the name.
\<close>

definition EvalSymlinks :: "env \<Rightarrow> world \<Rightarrow> string \<Rightarrow> errno + string" where
  "EvalSymlinks e w p =
     (case resolve e w True p of
        Inl er \<Rightarrow> Inl er
      | Inr q \<Rightarrow> (case nodeAt w q of None \<Rightarrow> Inl ENOENT | Some n \<Rightarrow> Inr (render q)))"

text \<open>\<open>os.Stat(p)\<close> followed by \<open>Mode()\<close>.\<close>

definition Stat :: "env \<Rightarrow> world \<Rightarrow> string \<Rightarrow> errno + FileMode" where
  "Stat e w p =
     (case resolve e w True p of
        Inl er \<Rightarrow> Inl er
      | Inr q \<Rightarrow>
          (case nodeAt w q of
             None \<Rightarrow> Inl ENOENT
           | Some (DirNode m) \<Rightarrow> Inr (m OR ModeDir)
           | Some (FileNode i) \<Rightarrow>
               (case inodeAt w i of None \<Rightarrow> Inl ENOENT | Some ino \<Rightarrow> Inr (imode ino))
           | Some (LinkNode t) \<Rightarrow> Inl ELOOP))"

definition IsDir :: "FileMode \<Rightarrow> bool" where
  "IsDir m = (m AND ModeDir \<noteq> 0)"

text \<open>The permission bits of a mode, which is what the system calls store.\<close>

definition Perm :: "FileMode \<Rightarrow> FileMode" where
  "Perm m = m AND 511"

definition setNode :: "path \<Rightarrow> node \<Rightarrow> world \<Rightarrow> world" where
  "setNode p n w = w\<lparr>tree := (p, n) # tree w\<rparr>"

definition Mkdir :: "env \<Rightarrow> string \<Rightarrow> FileMode \<Rightarrow> world \<Rightarrow> errno option \<times> world" where
  "Mkdir e p perm w =
     (case resolve e w False p of
        Inl er \<Rightarrow> (Some er, w)
      | Inr q \<Rightarrow>
          (case nodeAt w q of
             Some n \<Rightarrow> (Some EEXIST, w)
           | None \<Rightarrow> (None, setNode q (DirNode (Perm perm)) w)))"

text \<open>
  \<open>os.MkdirAll\<close>, as the standard library writes it: done when the path is a
  directory, an error when it is something else; otherwise the parent is made first (the
  path without its last element and the separator before it), then the directory itself.
\<close>

definition stripSeps :: "string \<Rightarrow> string" where
  "stripSeps r = dropWhile (\<lambda>c. c = CHR ''/'') r"

definition stripElem :: "string \<Rightarrow> string" where
  "stripElem r = dropWhile (\<lambda>c. c \<noteq> CHR ''/'') r"

function MkdirAll :: "env \<Rightarrow> string \<Rightarrow> FileMode \<Rightarrow> world \<Rightarrow> errno option \<times> world" where
  "MkdirAll e p perm w =
     (case Stat e w p of
        Inr m \<Rightarrow> if IsDir m then (None, w) else (Some ENOTDIR, w)
      | Inl er0 \<Rightarrow>
          (let upto = stripElem (stripSeps (rev p));
               made = (if 1 < length upto then MkdirAll e (rev (tl upto)) perm w
                       else (None, w))
           in case made of
                (Some er, w1) \<Rightarrow> (Some er, w1)
              | (None, w1) \<Rightarrow>
                  (case Mkdir e p perm w1 of
                     (None, w2) \<Rightarrow> (None, w2)
                   | (Some er, w2) \<Rightarrow>
                       (case resolve e w2 False p of
                          Inr q \<Rightarrow> if isDirAt w2 q then (None, w2) else (Some er, w2)
                        | Inl er1 \<Rightarrow> (Some er, w2)))))"
  by pat_completeness auto

lemma length_stripped: "length (stripElem (stripSeps r)) \<le> length r"
  unfolding stripElem_def stripSeps_def
  by (meson length_dropWhile_le order_trans)

termination MkdirAll
proof (relation "measure (\<lambda>(e, p, perm, w). length p)")
  show "wf (measure (\<lambda>(e, p, perm, w). length p))" by simp
next
  fix e :: env and p :: string and perm :: FileMode and w :: world and er0 upto
  assume u: "upto = stripElem (stripSeps (rev p))" and l: "1 < length upto"
  have "length upto \<le> length p"
    using length_stripped [of "rev p"] u by simp
  with l show "((e, rev (tl upto), perm, w), (e, p, perm, w))
         \<in> measure (\<lambda>(e, p, perm, w). length p)"
    by simp
qed

declare MkdirAll.simps [simp del]

text \<open>
  \<open>os.RemoveAll\<close>: nothing to do for a path that does not exist; a path ending in
  \<open>.\<close> is refused; the last name is not followed when it is a symbolic link. The root
  directory itself cannot be removed: what it holds goes, and the call fails.
\<close>

definition endsWithDot :: "string \<Rightarrow> bool" where
  "endsWithDot p = (p = ''.'' \<or> HasSuffix p ''/.'')"

definition RemoveAll :: "env \<Rightarrow> string \<Rightarrow> world \<Rightarrow> errno option \<times> world" where
  "RemoveAll e p w =
     (if p = [] then (None, w)
      else if endsWithDot p then (Some EINVAL, w)
      else (case resolve e w False p of
              Inl er \<Rightarrow> if IsNotExist er then (None, w) else (Some er, w)
            | Inr q \<Rightarrow>
                if q = [] then (Some EBUSY, w\<lparr>tree := []\<rparr>)
                else (None, w\<lparr>tree := filter (\<lambda>(r, n). \<not> isPrefix q r) (tree w)\<rparr>)))"


text \<open>\<open>os.Remove\<close>: unlinks a file or a link, removes an empty directory.\<close>

definition hasChildren :: "world \<Rightarrow> path \<Rightarrow> bool" where
  "hasChildren w q = (\<exists>(r, n) \<in> set (tree w). isPrefix q r \<and> r \<noteq> q)"

definition Remove :: "env \<Rightarrow> string \<Rightarrow> world \<Rightarrow> errno option \<times> world" where
  "Remove e p w =
     (case resolve e w False p of
        Inl er \<Rightarrow> (Some er, w)
      | Inr q \<Rightarrow>
          (case nodeAt w q of
             None \<Rightarrow> (Some ENOENT, w)
           | Some (DirNode m) \<Rightarrow>
               if q = [] then (Some EINVAL, w)
               else if hasChildren w q then (Some ENOTEMPTY, w)
               else (None, w\<lparr>tree := filter (\<lambda>(r, n). r \<noteq> q) (tree w)\<rparr>)
           | Some n \<Rightarrow> (None, w\<lparr>tree := filter (\<lambda>(r, n). r \<noteq> q) (tree w)\<rparr>)))"

definition Chmod :: "env \<Rightarrow> string \<Rightarrow> FileMode \<Rightarrow> world \<Rightarrow> errno option \<times> world" where
  "Chmod e p perm w =
     (case resolve e w True p of
        Inl er \<Rightarrow> (Some er, w)
      | Inr q \<Rightarrow>
          (case nodeAt w q of
             None \<Rightarrow> (Some ENOENT, w)
           | Some (DirNode m) \<Rightarrow> (None, setNode q (DirNode (Perm perm)) w)
           | Some (FileNode i) \<Rightarrow>
               (case inodeAt w i of
                  None \<Rightarrow> (Some ENOENT, w)
                | Some ino \<Rightarrow> (None, w\<lparr>inodes := (inodes w)[i := ino\<lparr>imode := Perm perm\<rparr>]\<rparr>))
           | Some (LinkNode t) \<Rightarrow> (Some ELOOP, w)))"

text \<open>\<open>os.Symlink(oldname, newname)\<close>: the target is stored as given.\<close>

definition Symlink :: "env \<Rightarrow> string \<Rightarrow> string \<Rightarrow> world \<Rightarrow> errno option \<times> world" where
  "Symlink e oldname newname w =
     (if oldname = [] then (Some ENOENT, w)
      else (case resolve e w False newname of
              Inl er \<Rightarrow> (Some er, w)
            | Inr q \<Rightarrow>
                (case nodeAt w q of
                   Some n \<Rightarrow> (Some EEXIST, w)
                 | None \<Rightarrow> (None, setNode q (LinkNode oldname) w))))"

text \<open>\<open>os.Link(oldname, newname)\<close>: a second name for the inode of \<open>oldname\<close>.\<close>

definition Link :: "env \<Rightarrow> string \<Rightarrow> string \<Rightarrow> world \<Rightarrow> errno option \<times> world" where
  "Link e oldname newname w =
     (case resolve e w False oldname of
        Inl er \<Rightarrow> (Some er, w)
      | Inr q \<Rightarrow>
          (case nodeAt w q of
             None \<Rightarrow> (Some ENOENT, w)
           | Some (DirNode m) \<Rightarrow> (Some EPERM, w)
           | Some n \<Rightarrow>
               (case resolve e w False newname of
                  Inl er \<Rightarrow> (Some er, w)
                | Inr q' \<Rightarrow>
                    (case nodeAt w q' of
                       Some n' \<Rightarrow> (Some EEXIST, w)
                     | None \<Rightarrow> (None, setNode q' n w)))))"

text \<open>
  \<open>os.OpenFile\<close> with the flags the program uses. The handle of an open file is its
  inode number; a directory can be opened for reading only.
\<close>

record flags =
  O_WRONLY :: bool
  O_CREATE :: bool
  O_EXCL :: bool
  O_TRUNC :: bool

datatype handle = FileH nat | DirH

definition OpenFile :: "env \<Rightarrow> string \<Rightarrow> flags \<Rightarrow> FileMode \<Rightarrow> world \<Rightarrow> (errno + handle) \<times> world" where
  "OpenFile e p fl perm w =
     (case resolve e w (\<not> (O_CREATE fl \<and> O_EXCL fl)) p of
        Inl er \<Rightarrow> (Inl er, w)
      | Inr q \<Rightarrow>
          (case nodeAt w q of
             None \<Rightarrow>
               if O_CREATE fl
               then (Inr (FileH (length (inodes w))),
                     setNode q (FileNode (length (inodes w)))
                       (w\<lparr>inodes := inodes w @ [\<lparr>imode = Perm perm, content = []\<rparr>]\<rparr>))
               else (Inl ENOENT, w)
           | Some (FileNode i) \<Rightarrow>
               if O_CREATE fl \<and> O_EXCL fl then (Inl EEXIST, w)
               else (case inodeAt w i of
                       None \<Rightarrow> (Inl ENOENT, w)
                     | Some ino \<Rightarrow>
                         if O_TRUNC fl \<and> O_WRONLY fl
                         then (Inr (FileH i), w\<lparr>inodes := (inodes w)[i := ino\<lparr>content := []\<rparr>]\<rparr>)
                         else (Inr (FileH i), w))
           | Some (DirNode m) \<Rightarrow>
               if O_CREATE fl \<and> O_EXCL fl then (Inl EEXIST, w)
               else if O_WRONLY fl \<or> O_CREATE fl then (Inl EISDIR, w)
               else (Inr DirH, w)
           | Some (LinkNode t) \<Rightarrow>
               (Inl (if O_CREATE fl \<and> O_EXCL fl then EEXIST else ELOOP), w)))"

text \<open>
  Writing \<open>data\<close> through a handle just opened: the bytes go to offset 0 and up; what
  the file held beyond them stays.
\<close>

definition writeFile :: "nat \<Rightarrow> string \<Rightarrow> world \<Rightarrow> world" where
  "writeFile i data w =
     (case inodeAt w i of
        None \<Rightarrow> w
      | Some ino \<Rightarrow>
          w\<lparr>inodes := (inodes w)[i := ino\<lparr>content := data @ drop (length data) (content ino)\<rparr>]\<rparr>)"

section \<open>The network and the archive reader\<close>

text \<open>
  One entry of a tar stream as \<open>tar.Reader\<close> presents it: the header fields the program
  reads (\<open>FileMode\<close> is \<open>header.FileInfo().Mode()\<close>), the bytes of the entry, and
  whether reading them ends in an error (a stream cut off or corrupt inside the entry).
\<close>

record Header =
  Typeflag :: char
  Name :: string
  Linkname :: string
  FileMode :: FileMode
  Data :: string
  DataErr :: bool

abbreviation TypeReg :: char where "TypeReg \<equiv> CHR ''0''"
abbreviation TypeLink :: char where "TypeLink \<equiv> CHR ''1''"
abbreviation TypeSymlink :: char where "TypeSymlink \<equiv> CHR ''2''"
abbreviation TypeDir :: char where "TypeDir \<equiv> CHR ''5''"

text \<open>
  A response body read as a gzip-compressed tar stream: not gzip at all
  (\<open>gzip.NewReader\<close> fails), or the entries \<open>Next\<close> returns, whether the stream then
  ends in an error instead of \<open>io.EOF\<close>, and the bytes of the body read by the time
  \<open>io.EOF\<close> is returned.
\<close>

datatype Archive = NotGzip | Tar "Header list" bool string

text \<open>
  A response: the bytes of its body, whether reading the body ends in an error after them
  (the connection cut off), and the body read as an archive.
\<close>

record Response =
  body :: string
  bodyErr :: bool
  archive :: Archive

datatype Reply = InvalidRequest | TransportFailed | Reply Response

type_synonym network = "string \<Rightarrow> Reply"

section \<open>The provisioning engine\<close>

definition CacheDir :: "env \<Rightarrow> string" where
  "CacheDir e = userCacheDir e @ ''/crust''"

definition toolDir :: "env \<Rightarrow> Name \<Rightarrow> Platform \<Rightarrow> error + string" where
  "toolDir e name platform =
     (case map_of tools name of
        None \<Rightarrow> Inl (ToolNotDefined name)
      | Some info \<Rightarrow>
          Inr (Join [CacheDir e, PlatformString platform, name @ ''-'' @ Version info]))"

definition ensureDir :: "env \<Rightarrow> string \<Rightarrow> world \<Rightarrow> error option \<times> world" where
  "ensureDir e file w =
     (case MkdirAll e (Dir file) 493 w of
        (None, w1) \<Rightarrow> (None, w1)
      | (Some er, w1) \<Rightarrow> if \<not> IsExist er then (Some (PathError er), w1) else (None, w1))"

text \<open>\<open>hasher\<close>: the expected checksum, or the panic.\<close>

definition hasher :: "string \<Rightarrow> error + string" where
  "hasher hashStr =
     (case SplitN2 hashStr of
        [hashAlgorithm, checksum] \<Rightarrow>
          if hashAlgorithm = ''sha256'' then Inr (ToLower checksum)
          else Inl (UnsupportedHash hashAlgorithm)
      | _ \<Rightarrow> Inl (IncorrectChecksumFormat hashStr))"

text \<open>
  \<open>untar\<close>: the loop over \<open>tr.Next()\<close>, which returns a header, \<open>io.EOF\<close> or an
  error (never a \<open>nil\<close> header without an error, so the \<open>continue\<close> branch is not
  taken). \<open>header.Name\<close> is prefixed with the destination; \<open>header.Linkname\<close> is
  used as the archive gives it.
\<close>

fun untar :: "env \<Rightarrow> Header list \<Rightarrow> bool \<Rightarrow> string \<Rightarrow> world \<Rightarrow> error option \<times> world" where
  "untar e [] endErr path w = (if endErr then (Some StreamError, w) else (None, w))"
| "untar e (header # rest) endErr path w =
     (let name = path @ ''/'' @ Name header;
          mode = FileMode header
      in if Typeflag header = TypeDir then
           (case MkdirAll e name mode w of
              (None, w1) \<Rightarrow> untar e rest endErr path w1
            | (Some er, w1) \<Rightarrow>
                if \<not> IsExist er then (Some (PathError er), w1)
                else untar e rest endErr path w1)
         else if Typeflag header = TypeReg then
           (case ensureDir e name w of
              (Some er, w1) \<Rightarrow> (Some er, w1)
            | (None, w1) \<Rightarrow>
                (case OpenFile e name
                        \<lparr>O_WRONLY = True, O_CREATE = True, O_EXCL = False, O_TRUNC = False\<rparr>
                        mode w1 of
                   (Inl er, w2) \<Rightarrow> (Some (PathError er), w2)
                 | (Inr DirH, w2) \<Rightarrow> (Some (PathError EISDIR), w2)
                 | (Inr (FileH f), w2) \<Rightarrow>
                     (let w3 = writeFile f (Data header) w2
                      in if DataErr header then (Some StreamError, w3)
                         else untar e rest endErr path w3)))
         else if Typeflag header = TypeSymlink then
           (case ensureDir e name w of
              (Some er, w1) \<Rightarrow> (Some er, w1)
            | (None, w1) \<Rightarrow>
                (case Symlink e (Linkname header) name w1 of
                   (Some er, w2) \<Rightarrow> (Some (PathError er), w2)
                 | (None, w2) \<Rightarrow> untar e rest endErr path w2))
         else if Typeflag header = TypeLink then
           (case ensureDir e name w of
              (Some er, w1) \<Rightarrow> (Some er, w1)
            | (None, w1) \<Rightarrow>
                (case OpenFile e (Linkname header)
                        \<lparr>O_WRONLY = False, O_CREATE = True, O_EXCL = True, O_TRUNC = False\<rparr>
                        mode w1 of
                   (Inl er, w2) \<Rightarrow>
                     if \<not> IsExist er then (Some (PathError er), w2)
                     else (case Link e (Linkname header) name w2 of
                             (Some er', w3) \<Rightarrow> (Some (PathError er'), w3)
                           | (None, w3) \<Rightarrow> untar e rest endErr path w3)
                 | (Inr f, w2) \<Rightarrow>
                     (case Link e (Linkname header) name w2 of
                        (Some er', w3) \<Rightarrow> (Some (PathError er'), w3)
                      | (None, w3) \<Rightarrow> untar e rest endErr path w3)))
         else (Some (UnsupportedFileType (Typeflag header)), w))"

text \<open>
  \<open>save\<close>: a URL ending in \<open>.tar.gz\<close> is unpacked, anything else is written to
  one file named after the URL, truncating what was there.
\<close>

definition save :: "env \<Rightarrow> string \<Rightarrow> Response \<Rightarrow> string \<Rightarrow> world \<Rightarrow> error option \<times> world" where
  "save e url resp path w =
     (if HasSuffix url ''.tar.gz'' then
        (case archive resp of
           NotGzip \<Rightarrow> (Some StreamError, w)
         | Tar entries endErr rd \<Rightarrow> untar e entries endErr path w)
      else
        (case OpenFile e (Join [path, Base url])
                \<lparr>O_WRONLY = True, O_CREATE = True, O_EXCL = False, O_TRUNC = True\<rparr> 448 w of
           (Inl er, w1) \<Rightarrow> (Some (PathError er), w1)
         | (Inr DirH, w1) \<Rightarrow> (Some (PathError EISDIR), w1)
         | (Inr (FileH f), w1) \<Rightarrow>
             (let w2 = writeFile f (body resp) w1
              in if bodyErr resp then (Some StreamError, w2) else (None, w2))))"

text \<open>
  The bytes that have passed through the \<open>io.TeeReader\<close> into the hasher when
  \<open>save\<close> returns \<open>nil\<close>.
\<close>

definition hashed :: "string \<Rightarrow> Response \<Rightarrow> string" where
  "hashed url resp =
     (if HasSuffix url ''.tar.gz'' then
        (case archive resp of NotGzip \<Rightarrow> [] | Tar entries endErr rd \<Rightarrow> rd)
      else body resp)"

definition ignoreNotExist :: "errno option \<Rightarrow> errno option" where
  "ignoreNotExist r = (case r of None \<Rightarrow> None | Some er \<Rightarrow> if IsNotExist er then None else Some er)"

text \<open>
  One round of the publication loop of \<open>install\<close>; the result is the value of the panic,
  if one of the \<open>must\<close> calls panics.
\<close>

definition srcLinkPath :: "Name \<Rightarrow> Tool \<Rightarrow> string \<Rightarrow> string \<Rightarrow> string" where
  "srcLinkPath name info dst src =
     Join [Repeat ''../'' (Count dst (CHR ''/'')), name @ ''-'' @ Version info, src]"

definition publishBinary ::
  "env \<Rightarrow> Name \<Rightarrow> Tool \<Rightarrow> Platform \<Rightarrow> string \<Rightarrow> string \<Rightarrow> string \<Rightarrow> string \<Rightarrow> world
     \<Rightarrow> error option \<times> world" where
  "publishBinary e name info platform td dstDir dst src w =
     (let srcPath = td @ ''/'' @ src;
          dstPath = dstDir @ ''/'' @ dst
      in case Remove e dstPath w of (rm, w1) \<Rightarrow>
         (case ignoreNotExist rm of
            Some er \<Rightarrow> (Some (PathError er), w1)
          | None \<Rightarrow>
         (case MkdirAll e (Dir dstPath) 448 w1 of
            (Some er, w2) \<Rightarrow> (Some (PathError er), w2)
          | (None, w2) \<Rightarrow>
         (case Chmod e srcPath 448 w2 of
            (Some er, w3) \<Rightarrow> (Some (PathError er), w3)
          | (None, w3) \<Rightarrow>
         (case (if OS platform = dockerOS
                then Symlink e (srcLinkPath name info dst src) dstPath w3
                else Symlink e srcPath dstPath w3) of
            (Some er, w4) \<Rightarrow> (Some (PathError er), w4)
          | (None, w4) \<Rightarrow>
         (case EvalSymlinks e w4 dstPath of
            Inl er \<Rightarrow> (Some (PathError er), w4)
          | Inr real \<Rightarrow> (None, w4)))))))"

fun publish ::
  "env \<Rightarrow> Name \<Rightarrow> Tool \<Rightarrow> Platform \<Rightarrow> string \<Rightarrow> string \<Rightarrow> strmap \<Rightarrow> world
     \<Rightarrow> outcome \<times> world" where
  "publish e name info platform td dstDir [] w = (Return None, w)"
| "publish e name info platform td dstDir ((dst, src) # rest) w =
     (case publishBinary e name info platform td dstDir dst src w of
        (Some er, w1) \<Rightarrow> (Panic er, w1)
      | (None, w1) \<Rightarrow> publish e name info platform td dstDir rest w1)"

text \<open>
  \<open>install\<close> from the call of \<open>save\<close> on: what runs while the deferred cleanup is
  registered.
\<close>

definition installBody ::
  "env \<Rightarrow> Name \<Rightarrow> Tool \<Rightarrow> Platform \<Rightarrow> Source \<Rightarrow> Response \<Rightarrow> string \<Rightarrow> string \<Rightarrow> world
     \<Rightarrow> outcome \<times> world" where
  "installBody e name info platform source resp expectedChecksum td w =
     (case save e (URL source) resp td w of
        (Some er, w1) \<Rightarrow> (Return (Some er), w1)
      | (None, w1) \<Rightarrow>
          (let actualChecksum = sha256hex e (hashed (URL source) resp)
           in if actualChecksum \<noteq> expectedChecksum
              then (Return (Some (ChecksumMismatch name expectedChecksum actualChecksum
                                    (URL source))), w1)
              else (let dstDir = (if OS platform = dockerOS
                                  then Join [CacheDir e, PlatformString platform]
                                  else ''.'')
                    in publish e name info platform td dstDir
                         (Assign [Binaries info, SrcBinaries source]) w1)))"

text \<open>
  \<open>install\<close>. The deferred function removes the tool directory when the function
  returns an error; when the function panics \<open>retErr\<close> is still \<open>nil\<close> and nothing is
  removed.
\<close>

definition install ::
  "env \<Rightarrow> network \<Rightarrow> Name \<Rightarrow> Tool \<Rightarrow> Platform \<Rightarrow> world \<Rightarrow> outcome \<times> world" where
  "install e net name info platform w =
     (case map_of (Sources info) platform of
        None \<Rightarrow> (Panic (NotConfigured name (PlatformString platform)), w)
      | Some source \<Rightarrow>
          (case net (URL source) of
             InvalidRequest \<Rightarrow> (Panic (InvalidURL (URL source)), w)
           | TransportFailed \<Rightarrow>
               (Return (Some TransportError), w\<lparr>requests := requests w @ [URL source]\<rparr>)
           | Reply resp \<Rightarrow>
               (let w0 = w\<lparr>requests := requests w @ [URL source]\<rparr>
                in case hasher (Hash source) of
                     Inl er \<Rightarrow> (Panic er, w0)
                   | Inr expectedChecksum \<Rightarrow>
                (case toolDir e name platform of
                   Inl er \<Rightarrow> (Panic er, w0)
                 | Inr td \<Rightarrow>
                (case RemoveAll e td w0 of (rm, w1) \<Rightarrow>
                (case ignoreNotExist rm of
                   Some er \<Rightarrow> (Panic (PathError er), w1)
                 | None \<Rightarrow>
                (case MkdirAll e td 448 w1 of
                   (Some er, w2) \<Rightarrow> (Panic (PathError er), w2)
                 | (None, w2) \<Rightarrow>
                (case installBody e name info platform source resp expectedChecksum td w2 of
                   (Return (Some retErr), w3) \<Rightarrow>
                     (case RemoveAll e td w3 of
                        (Some er, w4) \<Rightarrow> (Panic (PathError er), w4)
                      | (None, w4) \<Rightarrow> (Return (Some retErr), w4))
                 | (r, w3) \<Rightarrow> (r, w3)))))))))"

text \<open>
  \<open>ensurePlatform\<close>: the loop over the effective binaries, each round either calling
  \<open>install\<close> and returning its result or going on to the next binary. \<open>filepath.Abs\<close>
  does not fail here, so its two error branches are never taken.
\<close>

fun ensureLoop ::
  "env \<Rightarrow> network \<Rightarrow> Name \<Rightarrow> Tool \<Rightarrow> Platform \<Rightarrow> string \<Rightarrow> strmap \<Rightarrow> world
     \<Rightarrow> outcome \<times> world" where
  "ensureLoop e net tool info platform td [] w = (Return None, w)"
| "ensureLoop e net tool info platform td ((dst, src) # rest) w =
     (let srcPath = Abs e (td @ ''/'' @ src);
          dstPlatform = (if OS platform = dockerOS
                         then Join [CacheDir e, PlatformString platform, dst]
                         else dst);
          dstPath = Abs e dstPlatform
      in case EvalSymlinks e w dstPath of
           Inl er \<Rightarrow> install e net tool info platform w
         | Inr realPath \<Rightarrow>
             if realPath \<noteq> srcPath then install e net tool info platform w
             else (case Stat e w realPath of
                     Inl er \<Rightarrow> install e net tool info platform w
                   | Inr fMode \<Rightarrow>
                       if fMode AND 448 = 0 then install e net tool info platform w
                       else ensureLoop e net tool info platform td rest w))"

definition ensurePlatform ::
  "env \<Rightarrow> network \<Rightarrow> Name \<Rightarrow> Platform \<Rightarrow> world \<Rightarrow> outcome \<times> world" where
  "ensurePlatform e net tool platform w =
     (case map_of tools tool of
        None \<Rightarrow> (Return (Some (ToolNotDefined tool)), w)
      | Some info \<Rightarrow>
          (case map_of (Sources info) platform of
             None \<Rightarrow> (Panic (NotConfigured tool (PlatformString platform)), w)
           | Some source \<Rightarrow>
               (case toolDir e tool platform of
                  Inl er \<Rightarrow> (Panic er, w)
                | Inr td \<Rightarrow>
                    ensureLoop e net tool info platform td
                      (Assign [Binaries info, SrcBinaries source]) w)))"

definition EnsureLocal :: "env \<Rightarrow> network \<Rightarrow> Name \<Rightarrow> world \<Rightarrow> outcome \<times> world" where
  "EnsureLocal e net tool w = ensurePlatform e net tool \<lparr>OS = GOOS e, Arch = GOARCH e\<rparr> w"


section \<open>Copying binaries out of the cache\<close>

definition DockerPlatform :: "env \<Rightarrow> Platform" where
  "DockerPlatform e = \<lparr>OS = dockerOS, Arch = GOARCH e\<rparr>"

text \<open>\<open>ByName\<close>: the zero \<open>Tool\<close> for a name that is not in the catalog.\<close>

definition ByName :: "Name \<Rightarrow> Tool" where
  "ByName name =
     (case map_of tools name of
        Some t \<Rightarrow> t
      | None \<Rightarrow> \<lparr>Version = [], ForDocker = False, ForLocal = False, Sources = [], Binaries = []\<rparr>)"

definition PathDocker :: "env \<Rightarrow> string \<Rightarrow> string" where
  "PathDocker e tool = Abs e (Join [CacheDir e, PlatformString (DockerPlatform e), tool])"

text \<open>The index from base name to destination key, tool-level keys first.\<close>

definition storedBinaryNames :: "env \<Rightarrow> Name \<Rightarrow> strmap" where
  "storedBinaryNames e tool =
     (let fromTool = foldl (\<lambda>m key. mapSet m (Base (PathDocker e key)) key) []
                       (map fst (Binaries (ByName tool)));
          source = (case map_of (Sources (ByName tool)) (DockerPlatform e) of
                      Some s \<Rightarrow> SrcBinaries s
                    | None \<Rightarrow> [])
      in foldl (\<lambda>m key. mapSet m (Base (PathDocker e key)) key) fromTool (map fst source))"

text \<open>\<open>io.Copy(fw, fr)\<close> between two open files; reading a directory fails.\<close>

definition copyFile :: "nat \<Rightarrow> handle \<Rightarrow> world \<Rightarrow> errno option \<times> world" where
  "copyFile fw fr w =
     (case fr of
        DirH \<Rightarrow> (Some EISDIR, w)
      | FileH i \<Rightarrow>
          (case inodeAt w i of
             None \<Rightarrow> (Some ENOENT, w)
           | Some ino \<Rightarrow> (None, writeFile fw (content ino) w)))"

fun copyLoop :: "env \<Rightarrow> string \<Rightarrow> strmap \<Rightarrow> string list \<Rightarrow> world \<Rightarrow> error option \<times> world" where
  "copyLoop e path stored [] w = (None, w)"
| "copyLoop e path stored (binaryName # rest) w =
     (let storedBinaryPath = (case map_of stored binaryName of Some k \<Rightarrow> k | None \<Rightarrow> []);
          pathDocker = PathDocker e storedBinaryPath
      in case EvalSymlinks e w pathDocker of
           Inl er \<Rightarrow> (Some (PathError er), w)
         | Inr absPath \<Rightarrow>
             (case OpenFile e absPath
                     \<lparr>O_WRONLY = False, O_CREATE = False, O_EXCL = False, O_TRUNC = False\<rparr> 0 w of
                (Inl er, w1) \<Rightarrow> (Some (PathError er), w1)
              | (Inr fr, w1) \<Rightarrow>
                  (case OpenFile e (Join [path, binaryName])
                          \<lparr>O_WRONLY = True, O_CREATE = True, O_EXCL = False, O_TRUNC = True\<rparr>
                          511 w1 of
                     (Inl er, w2) \<Rightarrow> (Some (PathError er), w2)
                   | (Inr DirH, w2) \<Rightarrow> (Some (PathError EISDIR), w2)
                   | (Inr (FileH fw), w2) \<Rightarrow>
                       (case copyFile fw fr w2 of
                          (Some er, w3) \<Rightarrow> (Some (PathError er), w3)
                        | (None, w3) \<Rightarrow> copyLoop e path stored rest w3))))"

definition CopyToolBinaries ::
  "env \<Rightarrow> Name \<Rightarrow> string \<Rightarrow> string list \<Rightarrow> world \<Rightarrow> error option \<times> world" where
  "CopyToolBinaries e tool path binaryNames w =
     (if length binaryNames = 0 then (None, w)
      else (let stored = storedBinaryNames e tool
            in case find (\<lambda>binaryName. map_of stored binaryName = None) binaryNames of
                 Some binaryName \<Rightarrow> (Some (BinaryMissing binaryName tool), w)
               | None \<Rightarrow>
                   (case MkdirAll e path 511 w of
                      (Some er, w1) \<Rightarrow> (Some (PathError er), w1)
                    | (None, w1) \<Rightarrow> copyLoop e path stored binaryNames w1)))"

section \<open>The installed-state check as a predicate\<close>

text \<open>
  The three checks one round of the loop of \<open>ensurePlatform\<close> makes for a destination
  and its source: the destination resolves, it resolves to the artifact in the tool
  directory, and the mode of the resolved file passes the owner-bits test.
\<close>

definition binaryInstalled ::
  "env \<Rightarrow> Platform \<Rightarrow> string \<Rightarrow> world \<Rightarrow> string \<times> string \<Rightarrow> bool" where
  "binaryInstalled e platform td w b =
     (case b of (dst, src) \<Rightarrow>
        (case EvalSymlinks e w
                (Abs e (if OS platform = dockerOS
                        then Join [CacheDir e, PlatformString platform, dst]
                        else dst)) of
           Inl er \<Rightarrow> False
         | Inr realPath \<Rightarrow>
             realPath = Abs e (td @ ''/'' @ src) \<and>
             (case Stat e w realPath of
                Inl er \<Rightarrow> False
              | Inr fMode \<Rightarrow> fMode AND 448 \<noteq> 0)))"

section \<open>Example states\<close>

text \<open>
  A host with cache root \<open>/c\<close> and working directory \<open>/w\<close>, on amd64; every payload
  hashes to the digest the catalog declares for cosmovisor.
\<close>

definition hostEnv :: env where
  "hostEnv =
     \<lparr>userCacheDir = ''/c'', cwd = ''/w'', GOOS = ''linux'', GOARCH = ''amd64'',
      sha256hex =
        (\<lambda>b. ''34d7c9fbaa03f49b8278e13768d0fd82e28101dfa9625e25379c36a86d558826'')\<rparr>"

definition emptyDisk :: world where
  "emptyDisk =
     \<lparr>tree = [([''c''], DirNode 493), ([''w''], DirNode 493)], inodes = [], requests = []\<rparr>"

definition noNetwork :: network where
  "noNetwork = (\<lambda>url. TransportFailed)"

definition cosmovisorInfo :: Tool where
  "cosmovisorInfo = ByName Cosmovisor"

definition cosmovisorAMD64 :: Source where
  "cosmovisorAMD64 =
     \<lparr>URL = ''https://github.com/cosmos/cosmos-sdk/releases/download/cosmovisor%2Fv1.3.0/cosmovisor-v1.3.0-linux-amd64.tar.gz'',
      Hash = ''sha256:34d7c9fbaa03f49b8278e13768d0fd82e28101dfa9625e25379c36a86d558826'',
      SrcBinaries = []\<rparr>"

text \<open>
  The cache with cosmovisor published for docker, the artifact being a file of mode \<open>m\<close>.
\<close>

definition publishedDisk :: "FileMode \<Rightarrow> world" where
  "publishedDisk m =
     \<lparr>tree =
        [([''c''], DirNode 493), ([''w''], DirNode 493),
         ([''c'', ''crust''], DirNode 448),
         ([''c'', ''crust'', ''docker.amd64''], DirNode 448),
         ([''c'', ''crust'', ''docker.amd64'', ''cosmovisor-1.3.0''], DirNode 448),
         ([''c'', ''crust'', ''docker.amd64'', ''cosmovisor-1.3.0'', ''cosmovisor''], FileNode 0),
         ([''c'', ''crust'', ''docker.amd64'', ''bin''], DirNode 448),
         ([''c'', ''crust'', ''docker.amd64'', ''bin'', ''cosmovisor''],
            LinkNode ''../cosmovisor-1.3.0/cosmovisor'')],
      inodes = [\<lparr>imode = m, content = ''ELF''\<rparr>],
      requests = []\<rparr>"

text \<open>
  A tool description whose tool-level and source-level mappings give the destination
  \<open>bin/x\<close> two different artifacts, and a network serving an archive with both.
\<close>

definition regularFile :: "string \<Rightarrow> string \<Rightarrow> Header" where
  "regularFile name bytes =
     \<lparr>Typeflag = TypeReg, Name = name, Linkname = [], FileMode = 493, Data = bytes,
      DataErr = False\<rparr>"







text \<open>
  Two archives: one that holds the file \<open>f\<close> twice, the longer content first; and one
  with a directory, a hard link \<open>h\<close> to \<open>f\<close> listed before \<open>f\<close> itself, the regular
  file \<open>f\<close> and a symbolic link.
\<close>

definition twiceArchive :: "Header list" where
  "twiceArchive = [regularFile ''f'' ''xyz'', regularFile ''f'' ''ab'']"

definition hardLinkArchive :: "Header list" where
  "hardLinkArchive =
     [\<lparr>Typeflag = TypeDir, Name = ''d'', Linkname = [], FileMode = 493, Data = [],
       DataErr = False\<rparr>,
      \<lparr>Typeflag = TypeLink, Name = ''h'', Linkname = ''f'', FileMode = 420, Data = [],
       DataErr = False\<rparr>,
      regularFile ''f'' ''data'',
      \<lparr>Typeflag = TypeSymlink, Name = ''d/s'', Linkname = ''../f'', FileMode = 511, Data = [],
       DataErr = False\<rparr>]"






section \<open>The link target in the words of the specification\<close>


section \<open>Notions used in the proofs\<close>




section \<open>Merge precedence\<close>

lemma map_of_mapSet: "map_of (mapSet m k v) = (map_of m)(k \<mapsto> v)"
  by (induction m) auto

lemma fst_mapSet: "set (map fst (mapSet m k v)) = insert k (set (map fst m))"
  by (induction m) force+

lemma distinct_mapSet: "distinct (map fst m) \<Longrightarrow> distinct (map fst (mapSet m k v))"
proof (induction m)
  case Nil
  show ?case by simp
next
  case (Cons a m)
  obtain k' v' where a: "a = (k', v')" by (cases a)
  from Cons have d: "distinct (map fst (mapSet m k v))" by simp
  from Cons.prems a have nin: "k' \<notin> set (map fst m)" by simp
  show ?case
  proof (cases "k' = k")
    case True
    with Cons.prems a show ?thesis by simp
  next
    case False
    with nin have "k' \<notin> set (map fst (mapSet m k v))" by (simp only: fst_mapSet) simp
    with d a False show ?thesis by simp
  qed
qed

lemma map_of_assign_one:
  "distinct (map fst m) \<Longrightarrow>
   map_of (foldl (\<lambda>acc (k, v). mapSet acc k v) out m) = map_of out ++ map_of m"
proof (induction m arbitrary: out)
  case Nil
  show ?case by simp
next
  case (Cons a m)
  obtain k v where a: "a = (k, v)" by (cases a)
  from Cons.prems a have nin: "k \<notin> dom (map_of m)" and d: "distinct (map fst m)"
    by (auto simp: dom_map_of_conv_image_fst)
  have "map_of (foldl (\<lambda>acc (k, v). mapSet acc k v) out (a # m)) =
        map_of (mapSet out k v) ++ map_of m"
    using Cons.IH [OF d, of "mapSet out k v"] a by simp
  also have "\<dots> = (map_of out)(k \<mapsto> v) ++ map_of m"
    by (simp only: map_of_mapSet)
  also have "\<dots> = map_of out ++ map_of (a # m)"
    using nin a by (auto simp: map_add_def fun_eq_iff domIff split: option.splits)
  finally show ?case .
qed

lemma distinct_assign_one:
  "distinct (map fst out) \<Longrightarrow>
   distinct (map fst (foldl (\<lambda>acc (k, v). mapSet acc k v) out m))"
  by (induction m arbitrary: out) (auto simp: distinct_mapSet)

text \<open>
  \<open>lo.Assign(a, b)\<close> on maps with distinct keys: a key is looked up in \<open>b\<close> first and
  in \<open>a\<close> only when \<open>b\<close> lacks it; the result is again a map.
\<close>

lemma assign_source_wins:
  assumes "distinct (map fst (Binaries info))"
    and "distinct (map fst (SrcBinaries source))"
  shows "map_of (Assign [Binaries info, SrcBinaries source]) dst =
           (case map_of (SrcBinaries source) dst of
              Some src \<Rightarrow> Some src
            | None \<Rightarrow> map_of (Binaries info) dst)
         \<and> distinct (map fst (Assign [Binaries info, SrcBinaries source]))"
proof -
  have "map_of (Assign [Binaries info, SrcBinaries source]) =
        map_of (Binaries info) ++ map_of (SrcBinaries source)"
    using assms by (simp add: Assign_def map_of_assign_one)
  moreover have "distinct (map fst (Assign [Binaries info, SrcBinaries source]))"
    by (simp add: Assign_def distinct_assign_one)
  ultimately show ?thesis
    by (simp add: map_add_def split: option.splits)
qed

section \<open>The installed-state check\<close>

lemma ensureLoop_installed:
  "ensureLoop e net tool info platform td bs w =
     (if list_all (binaryInstalled e platform td w) bs then (Return None, w)
      else install e net tool info platform w)"
proof (induction bs)
  case Nil
  show ?case by simp
next
  case (Cons b bs)
  obtain dst src where b: "b = (dst, src)" by (cases b)
  show ?case
    unfolding b using Cons.IH
    by (simp add: binaryInstalled_def Let_def split: sum.splits)
qed

text \<open>
  Claim C4, as stated, fails: with the destination resolving to the artifact and the
  artifact of mode 0600 (so \<open>mode & 0700 \<noteq> 0700\<close>), \<open>ensurePlatform\<close> returns \<open>nil\<close>
  and leaves the state as it was, the network never asked.
\<close>

theorem owner_bits_counterexample:
  "EvalSymlinks hostEnv (publishedDisk 384) ''/c/crust/docker.amd64/bin/cosmovisor'' =
     Inr ''/c/crust/docker.amd64/cosmovisor-1.3.0/cosmovisor'' \<and>
   Stat hostEnv (publishedDisk 384) ''/c/crust/docker.amd64/cosmovisor-1.3.0/cosmovisor'' =
     Inr 384 \<and>
   (384 :: FileMode) AND 448 \<noteq> 448 \<and>
   ensurePlatform hostEnv noNetwork Cosmovisor dockerAMD64 (publishedDisk 384) =
     (Return None, publishedDisk 384)"
  by code_simp

text \<open>
  Claim C4, amended. For a destination of the effective mapping whose link resolves to the
  expected artifact path, with \<open>fMode\<close> the mode of the resolved file: the tool is treated
  as not installed (\<open>install\<close> runs) when \<open>fMode & 0700 = 0\<close>; when at least one owner
  bit is set this destination passes, and \<open>ensurePlatform\<close> returns \<open>nil\<close> untouched
  exactly when the other destinations pass too.
\<close>

theorem owner_bits_check:
  assumes "map_of tools tool = Some info"
    and "map_of (Sources info) platform = Some source"
    and "toolDir e tool platform = Inr td"
    and "(dst, src) \<in> set (Assign [Binaries info, SrcBinaries source])"
    and "EvalSymlinks e w
           (Abs e (if OS platform = dockerOS
                   then Join [CacheDir e, PlatformString platform, dst] else dst)) =
         Inr (Abs e (td @ ''/'' @ src))"
    and "Stat e w (Abs e (td @ ''/'' @ src)) = Inr fMode"
  shows "ensurePlatform e net tool platform w =
           (if fMode AND 448 \<noteq> 0 \<and>
               list_all (binaryInstalled e platform td w)
                 (filter (\<lambda>b. b \<noteq> (dst, src)) (Assign [Binaries info, SrcBinaries source]))
            then (Return None, w)
            else install e net tool info platform w)"
proof -
  let ?bs = "Assign [Binaries info, SrcBinaries source]"
  have this_one: "binaryInstalled e platform td w (dst, src) \<longleftrightarrow> fMode AND 448 \<noteq> 0"
    using assms(5,6) by (simp add: binaryInstalled_def)
  have "list_all (binaryInstalled e platform td w) ?bs \<longleftrightarrow>
        binaryInstalled e platform td w (dst, src) \<and>
        list_all (binaryInstalled e platform td w) (filter (\<lambda>b. b \<noteq> (dst, src)) ?bs)"
    using assms(4) by (auto simp: list_all_iff)
  with this_one show ?thesis
    using assms(1,2,3) by (simp add: ensurePlatform_def ensureLoop_installed)
qed

theorem owner_bits_check_witness:
  "ensurePlatform hostEnv noNetwork Cosmovisor dockerAMD64 (publishedDisk 36) =
     (Return (Some TransportError), (publishedDisk 36)\<lparr>requests := [URL cosmovisorAMD64]\<rparr>)"
proof -
  have 1: "map_of tools Cosmovisor = Some cosmovisorInfo"
    by code_simp
  have 2: "map_of (Sources cosmovisorInfo) dockerAMD64 = Some cosmovisorAMD64"
    by code_simp
  have 3: "toolDir hostEnv Cosmovisor dockerAMD64 = Inr ''/c/crust/docker.amd64/cosmovisor-1.3.0''"
    by code_simp
  have 4: "(''bin/cosmovisor'', ''cosmovisor'')
             \<in> set (Assign [Binaries cosmovisorInfo, SrcBinaries cosmovisorAMD64])"
    by code_simp
  have 5: "EvalSymlinks hostEnv (publishedDisk 36)
             (Abs hostEnv (if OS dockerAMD64 = dockerOS
                           then Join [CacheDir hostEnv, PlatformString dockerAMD64,
                                      ''bin/cosmovisor'']
                           else ''bin/cosmovisor'')) =
           Inr (Abs hostEnv (''/c/crust/docker.amd64/cosmovisor-1.3.0'' @ ''/'' @ ''cosmovisor''))"
    by code_simp
  have 6: "Stat hostEnv (publishedDisk 36)
             (Abs hostEnv (''/c/crust/docker.amd64/cosmovisor-1.3.0'' @ ''/'' @ ''cosmovisor'')) =
           Inr 36"
    by code_simp
  have 7: "install hostEnv noNetwork Cosmovisor cosmovisorInfo dockerAMD64 (publishedDisk 36) =
             (Return (Some TransportError),
              (publishedDisk 36)\<lparr>requests := [URL cosmovisorAMD64]\<rparr>)"
    by code_simp
  from owner_bits_check [OF 1 2 3 4 5 6, of noNetwork] 7 show ?thesis by simp
qed

section \<open>Configuration errors\<close>

text \<open>
  Claim C7, as stated, fails for the first of the two errors: asked for a name that is not
  in the catalog, \<open>ensurePlatform\<close> returns an ordinary error and does not panic.
\<close>

theorem unknown_tool_counterexample:
  "ensurePlatform hostEnv noNetwork ''nosuchtool'' linuxAMD64 emptyDisk =
     (Return (Some (ToolNotDefined ''nosuchtool'')), emptyDisk)"
  by (simp add: ensurePlatform_def tools_def)

text \<open>
  Claim C7, amended. A tool name absent from the catalog makes \<open>ensurePlatform\<close> return
  the error "tool is not defined"; a tool of the catalog requested for a platform absent
  from its sources makes it panic with "tool is not configured for platform". Neither
  touches the file system or the network.
\<close>

theorem configuration_errors:
  "(map_of tools tool = None \<longrightarrow>
      ensurePlatform e net tool platform w = (Return (Some (ToolNotDefined tool)), w)) \<and>
   (\<forall>info. map_of tools tool = Some info \<and> map_of (Sources info) platform = None \<longrightarrow>
      ensurePlatform e net tool platform w =
        (Panic (NotConfigured tool (PlatformString platform)), w))"
  by (simp add: ensurePlatform_def)

theorem configuration_errors_witness:
  "ensurePlatform hostEnv noNetwork ''nosuchtool'' linuxAMD64 emptyDisk =
     (Return (Some (ToolNotDefined ''nosuchtool'')), emptyDisk) \<and>
   ensurePlatform hostEnv noNetwork Cosmovisor linuxAMD64 emptyDisk =
     (Panic (NotConfigured Cosmovisor ''linux.amd64''), emptyDisk)"
proof -
  have 1: "map_of tools ''nosuchtool'' = None"
    by (simp add: tools_def)
  have 2: "map_of tools Cosmovisor = Some cosmovisorInfo \<and>
           map_of (Sources cosmovisorInfo) linuxAMD64 = None"
    by (simp add: tools_def cosmovisorInfo_def ByName_def)
  from configuration_errors [of "''nosuchtool''" hostEnv noNetwork linuxAMD64 emptyDisk] 1
    configuration_errors [of Cosmovisor hostEnv noNetwork linuxAMD64 emptyDisk] 2
  show ?thesis by (simp add: PlatformString_def)
qed

section \<open>Copying binaries: validation before any effect\<close>

lemma find_first:
  assumes "\<exists>b \<in> set bs. P b"
  shows "\<exists>b. find P bs = Some b \<and> b \<in> set bs \<and> P b"
  using assms by (induction bs) auto

text \<open>
  Claim C9. When some requested name is missing from the index \<open>storedBinaryNames\<close>
  (the base names of the tool-level keys and of the keys of the docker-platform source),
  \<open>CopyToolBinaries\<close> returns the error naming a missing binary and the tool, and the
  state is the one it started from: no directory made, no file written.
\<close>

theorem copy_missing_binary:
  assumes "\<exists>b \<in> set binaryNames. map_of (storedBinaryNames e tool) b = None"
  shows "\<exists>b \<in> set binaryNames.
           map_of (storedBinaryNames e tool) b = None \<and>
           CopyToolBinaries e tool path binaryNames w = (Some (BinaryMissing b tool), w)"
proof -
  from find_first [OF assms] obtain b where
    f: "find (\<lambda>binaryName. map_of (storedBinaryNames e tool) binaryName = None) binaryNames
          = Some b"
    and b: "b \<in> set binaryNames" "map_of (storedBinaryNames e tool) b = None"
    by blast
  from b have "binaryNames \<noteq> []" by auto
  with f have "CopyToolBinaries e tool path binaryNames w = (Some (BinaryMissing b tool), w)"
    by (simp add: CopyToolBinaries_def Let_def)
  with b show ?thesis by blast
qed

theorem copy_missing_binary_witness:
  "CopyToolBinaries hostEnv Cosmovisor ''/out'' [''cosmovisor'', ''gaiad''] (publishedDisk 448) =
     (Some (BinaryMissing ''gaiad'' Cosmovisor), publishedDisk 448)"
proof -
  have idx: "storedBinaryNames hostEnv Cosmovisor = [(''cosmovisor'', ''bin/cosmovisor'')]"
    by code_simp
  have "\<exists>b \<in> set [''cosmovisor'', ''gaiad'']. map_of (storedBinaryNames hostEnv Cosmovisor) b = None"
    by (simp add: idx)
  from copy_missing_binary [OF this, of "''/out''" "publishedDisk 448"] show ?thesis
    by (simp add: idx)
qed

text \<open>
  Claim C10. With no binary name requested \<open>CopyToolBinaries\<close> returns \<open>nil\<close> and the
  state is untouched, whatever the tool and the destination.
\<close>

theorem copy_nothing_requested:
  "CopyToolBinaries e tool path [] w = (None, w)"
  by (simp add: CopyToolBinaries_def)

section \<open>Publication of a binary\<close>

















section \<open>The run of install\<close>




section \<open>The effective binary mapping in the check and in publication\<close>






section \<open>The target of a published link\<close>




section \<open>Archive extraction on the code\<close>

text \<open>
  Claim C5 on the code. The regular-file branch of \<open>untar\<close> opens the file with
  \<open>O_CREATE|O_WRONLY\<close> and no \<open>O_TRUNC\<close>: extracting into the empty directory \<open>/c\<close>
  an archive that holds \<open>f\<close> twice, first as \<open>xyz\<close> and then as \<open>ab\<close>, succeeds and
  leaves \<open>f\<close> with the content \<open>abz\<close>, not with the bytes \<open>ab\<close> of the entry.
\<close>

theorem untar_does_not_truncate:
  "fst (untar hostEnv twiceArchive False ''/c'' emptyDisk) = None \<and>
   nodeAt (snd (untar hostEnv twiceArchive False ''/c'' emptyDisk)) [''c'', ''f''] =
     Some (FileNode 0) \<and>
   inodeAt (snd (untar hostEnv twiceArchive False ''/c'' emptyDisk)) 0 =
     Some \<lparr>imode = 493, content = ''abz''\<rparr>"
  by code_simp

text \<open>
  Claim C8 on the code. \<open>untar\<close> prefixes \<open>header.Name\<close> with the destination but uses
  \<open>header.Linkname\<close> as it stands, so the placeholder of a hard link and the link itself
  refer to a file in the working directory. Extracting \<open>hardLinkArchive\<close> into \<open>/c\<close>
  from the working directory \<open>/w\<close> succeeds, and then \<open>/c/h\<close> shares its inode with the
  stray empty file \<open>/w/f\<close>, while \<open>/c/f\<close> is another inode, which holds the data.
\<close>

theorem untar_hard_link_outside_destination:
  "fst (untar hostEnv hardLinkArchive False ''/c'' emptyDisk) = None \<and>
   nodeAt (snd (untar hostEnv hardLinkArchive False ''/c'' emptyDisk)) [''c'', ''h''] =
     Some (FileNode 0) \<and>
   nodeAt (snd (untar hostEnv hardLinkArchive False ''/c'' emptyDisk)) [''w'', ''f''] =
     Some (FileNode 0) \<and>
   nodeAt (snd (untar hostEnv hardLinkArchive False ''/c'' emptyDisk)) [''c'', ''f''] =
     Some (FileNode 1) \<and>
   inodeAt (snd (untar hostEnv hardLinkArchive False ''/c'' emptyDisk)) 0 =
     Some \<lparr>imode = 420, content = []\<rparr> \<and>
   inodeAt (snd (untar hostEnv hardLinkArchive False ''/c'' emptyDisk)) 1 =
     Some \<lparr>imode = 493, content = ''data''\<rparr> \<and>
   nodeAt (snd (untar hostEnv hardLinkArchive False ''/c'' emptyDisk)) [''c'', ''d'', ''s''] =
     Some (LinkNode ''../f'')"
  by code_simp

section \<open>The request log\<close>

















section \<open>Two calls in a row\<close>





section \<open>Removal of the tool directory\<close>









section \<open>Extraction only adds names\<close>
















section \<open>Making the tool directory\<close>






section \<open>The path of the tool directory\<close>












section \<open>Failure of an install\<close>






end
